theory Spec2Isabelle
  imports Complex_Main "HOL-Library.Word" "HOL-Library.Multiset"
begin

section \<open>JavaScript strings and numbers\<close>

text \<open>
  A JavaScript string is a sequence of UTF-16 code units. The model uses \<^typ>\<open>string\<close>,
  whose characters are the code units \<open>U+0000\<close> to \<open>U+00FF\<close>; \<open>length\<close> counts code units, as
  \<^verbatim>\<open>String.prototype.length\<close> does. Code units above \<open>U+00FF\<close> are outside the model.
\<close>

text \<open>The code units below \<open>U+0100\<close> that \<^verbatim>\<open>trim\<close> and \<^verbatim>\<open>parseInt\<close> skip (ECMAScript
  WhiteSpace and LineTerminator): TAB, LF, VT, FF, CR, SP and NBSP.\<close>

definition isWhiteSpace :: "char \<Rightarrow> bool" where
  "isWhiteSpace c = (c \<in> set [CHR 0x09, CHR 0x0A, CHR 0x0B, CHR 0x0C, CHR 0x0D, CHR 0x20, CHR 0xA0])"

definition trim :: "string \<Rightarrow> string" where
  "trim s = rev (dropWhile isWhiteSpace (rev (dropWhile isWhiteSpace s)))"

text \<open>\<^verbatim>\<open>toLowerCase\<close> on code units below \<open>U+0100\<close>: \<open>A\<close> to \<open>Z\<close> and the capital letters
  \<open>U+00C0\<close> to \<open>U+00DE\<close> (the multiplication sign \<open>U+00D7\<close> apart) move up by \<open>0x20\<close>.\<close>

definition toLowerCaseChar :: "char \<Rightarrow> char" where
  "toLowerCaseChar c =
     (let n = (of_char c :: nat)
      in if (0x41 \<le> n \<and> n \<le> 0x5A) \<or> (0xC0 \<le> n \<and> n \<le> 0xDE \<and> n \<noteq> 0xD7)
         then char_of (n + 0x20) else c)"

definition toLowerCase :: "string \<Rightarrow> string" where
  "toLowerCase s = map toLowerCaseChar s"

text \<open>\<^verbatim>\<open>Array.prototype.join(sep)\<close> on an array of strings.\<close>

fun join :: "string \<Rightarrow> string list \<Rightarrow> string" where
  "join sep [] = []"
| "join sep [x] = x"
| "join sep (x # y # ys) = x @ sep @ join sep (y # ys)"

text \<open>The decimal digits of a non-negative integer, as a template literal prints it.\<close>

definition digitChar :: "nat \<Rightarrow> char" where
  "digitChar d = (if d < 10 then char_of (0x30 + d) else char_of (0x57 + d))"

fun decimal :: "nat \<Rightarrow> string" where
  "decimal n = (if n < 10 then [digitChar n] else decimal (n div 10) @ [digitChar (n mod 10)])"

declare decimal.simps [simp del]

text \<open>\<^verbatim>\<open>b.toString(16).padStart(2, '0')\<close> for a byte \<open>b\<close>.\<close>

definition hexByte :: "8 word \<Rightarrow> string" where
  "hexByte b = [digitChar (unat b div 16), digitChar (unat b mod 16)]"

text \<open>\<^verbatim>\<open>TextEncoder.encode\<close>: UTF-8, one byte below \<open>U+0080\<close> and two bytes up to \<open>U+00FF\<close>.\<close>

definition encodeChar :: "char \<Rightarrow> 8 word list" where
  "encodeChar c =
     (let n = (of_char c :: nat)
      in if n < 0x80 then [of_nat n] else [of_nat (0xC0 + n div 0x40), of_nat (0x80 + n mod 0x40)])"

definition encode :: "string \<Rightarrow> 8 word list" where
  "encode s = concat (map encodeChar s)"

section \<open>Configuration\<close>

definition minPasswordLength :: nat where "minPasswordLength = 8"
definition maxPasswordLength :: nat where "maxPasswordLength = 128"
definition defaultPasswordLength :: nat where "defaultPasswordLength = 16"
definition hashIterations :: int where "hashIterations = 1000"
definition configMasterSalt :: "string option" where "configMasterSalt = None"

section \<open>HashGenerator\<close>

datatype error = Error string

record HashOptions =
  keywords' :: "string list"
  masterSalt :: "string option"
  iterations :: "int option"

record HashResult =
  hash :: string
  iterationsUsed :: int
  timestamp :: nat

text \<open>
  What a call takes from its surroundings: the digest primitive
  (\<^verbatim>\<open>crypto.subtle.digest\<close> with the configured algorithm, a black box from bytes to bytes),
  the time the one-millisecond timer after the first iteration really takes, and the
  reading of \<^verbatim>\<open>Date.now()\<close> when the result is built.
\<close>

record environment =
  digest :: "8 word list \<Rightarrow> 8 word list"
  timerDelay :: nat
  now :: nat

definition validateInputs :: "string list \<Rightarrow> error + string list" where
  "validateInputs inputs =
     (if inputs = [] then Inl (Error ''Inputs must be a non-empty array'')
      else Inr (filter (\<lambda>input. length (trim input) > 0) inputs))"

definition normalizeInput :: "string \<Rightarrow> string" where
  "normalizeInput input = toLowerCase (trim input)"

text \<open>A salt is pushed when it is truthy: neither \<^verbatim>\<open>null\<close> nor the empty string.\<close>

definition saltComponents :: "string option \<Rightarrow> string list" where
  "saltComponents effectiveMasterSalt =
     (case effectiveMasterSalt of None \<Rightarrow> [] | Some s \<Rightarrow> if s = [] then [] else [s])"

text \<open>The loop \<^verbatim>\<open>for (let i = 0; i < iterations; i++)\<close>, entered at \<open>i\<close> with the current hash.
  The timer awaited when \<open>i = 0\<close> changes no variable of the loop.\<close>

function hashLoop :: "environment \<Rightarrow> string option \<Rightarrow> string \<Rightarrow> int \<Rightarrow> nat \<Rightarrow> string \<Rightarrow> string" where
  "hashLoop env effectiveMasterSalt normalizedInputs n i currentHash =
     (if int i < n then
        (let iterationSalt =
               join ''|'' (saltComponents effectiveMasterSalt
                           @ [''iter-'' @ decimal i, normalizedInputs, currentHash]);
             hashArray = digest env (encode iterationSalt)
         in hashLoop env effectiveMasterSalt normalizedInputs n (Suc i)
              (concat (map hexByte hashArray)))
      else currentHash)"
  by pat_completeness auto
termination
  by (relation "measure (\<lambda>(env, s, inp, n, i, cur). nat (n - int i))") auto

declare hashLoop.simps [simp del]

definition generateHash :: "environment \<Rightarrow> HashOptions \<Rightarrow> error + HashResult" where
  "generateHash env options =
     (let n = (case iterations options of None \<Rightarrow> hashIterations | Some k \<Rightarrow> k)
      in case validateInputs (keywords' options) of
           Inl e \<Rightarrow> Inl e
         | Inr validatedInputs \<Rightarrow>
             (let normalizedInputs = join ''|'' (map normalizeInput validatedInputs);
                  effectiveMasterSalt =
                    (case masterSalt options of Some s \<Rightarrow> Some s | None \<Rightarrow> configMasterSalt)
              in Inr \<lparr> hash = hashLoop env effectiveMasterSalt normalizedInputs n 0 normalizedInputs,
                       iterationsUsed = n,
                       timestamp = now env \<rparr>))"

section \<open>IEEE 754 doubles\<close>

text \<open>
  The numbers of the source are doubles. Integers are modelled by \<^typ>\<open>int\<close> and
  \<^typ>\<open>nat\<close>; every one that occurs is far below \<open>2\<^sup>5\<^sup>3\<close>, where doubles are exact. A
  non-negative double that need not be an integer is a pair \<open>(m, e)\<close> that stands for
  \<open>m * 2\<^sup>e\<close>: zero is \<open>(0, 0)\<close>, and every other result of a rounding has
  \<open>2\<^sup>5\<^sup>2 \<le> m < 2\<^sup>5\<^sup>3\<close>. The exponent range is not modelled (no value here comes near
  its ends).
\<close>

type_synonym double = "int \<times> int"

text \<open>The number of binary digits of a positive integer.\<close>

function bitLength :: "int \<Rightarrow> int" where
  "bitLength n = (if n \<le> 0 then 0 else 1 + bitLength (n div 2))"
  by pat_completeness auto
termination
  by (relation "measure nat") auto

declare bitLength.simps [simp del]

text \<open>
  \<open>roundRatio p q\<close> is the double nearest to \<open>p / q\<close>, for \<open>p \<ge> 0\<close> and \<open>q > 0\<close>, ties to
  the even significand: \<open>e\<close> is the exponent with \<open>2\<^sup>e \<le> p / q < 2\<^sup>e\<^sup>+\<^sup>1\<close>, and \<open>p / q\<close> is
  rounded to a multiple of \<open>2\<^sup>e\<^sup>-\<^sup>5\<^sup>2\<close>. A decimal literal \<open>p / q\<close> of the source, and the
  quotient \<^verbatim>\<open>p / q\<close> of two integers, are \<open>roundRatio p q\<close>.
\<close>

definition roundRatio :: "int \<Rightarrow> int \<Rightarrow> double" where
  "roundRatio p q =
     (if p = 0 then (0, 0)
      else (let d = bitLength p - bitLength q;
                e = (if (if 0 \<le> d then q * 2 ^ nat d \<le> p else q \<le> p * 2 ^ nat (- d)) then d else d - 1);
                s = 52 - e;
                num = (if 0 \<le> s then p * 2 ^ nat s else p);
                den = (if 0 \<le> s then q else q * 2 ^ nat (- s));
                n = num div den;
                r = num mod den
            in ((if 2 * r < den then n else if den < 2 * r then n + 1 else if even n then n else n + 1),
                e - 52)))"

text \<open>\<^verbatim>\<open>n * x\<close> for an integer \<open>n \<ge> 0\<close> and a double \<open>x\<close>: the exact product, rounded.\<close>

definition fmul :: "int \<Rightarrow> double \<Rightarrow> double" where
  "fmul n x =
     (if 0 \<le> snd x then roundRatio (n * fst x * 2 ^ nat (snd x)) 1
      else roundRatio (n * fst x) (2 ^ nat (- snd x)))"

text \<open>\<^verbatim>\<open>Math.floor\<close>, and \<^verbatim>\<open>Math.round\<close> (the floor of \<open>x + 1 / 2\<close>, computed exactly).\<close>

definition mathFloor :: "double \<Rightarrow> int" where
  "mathFloor x = (if 0 \<le> snd x then fst x * 2 ^ nat (snd x) else fst x div 2 ^ nat (- snd x))"

definition mathRound :: "double \<Rightarrow> int" where
  "mathRound x =
     (if 0 \<le> snd x then fst x * 2 ^ nat (snd x)
      else (2 * fst x + 2 ^ nat (- snd x)) div (2 * 2 ^ nat (- snd x)))"

text \<open>The remainder operator \<^verbatim>\<open>%\<close> on integers: the sign of the dividend. The divisor is
  never zero where the model uses it.\<close>

definition jsRem :: "int \<Rightarrow> int \<Rightarrow> int" where
  "jsRem a b = sgn a * (\<bar>a\<bar> mod \<bar>b\<bar>)"

text \<open>Reading \<^verbatim>\<open>xs[i]\<close> at an integer index: \<^verbatim>\<open>undefined\<close> (here \<open>None\<close>) out of range.\<close>

definition arrayGet :: "'a list \<Rightarrow> int \<Rightarrow> 'a option" where
  "arrayGet xs i = (if 0 \<le> i \<and> i < int (length xs) then Some (xs ! nat i) else None)"

section \<open>PasswordGenerator\<close>

subsection \<open>Character sets and options\<close>

definition UPPERCASE :: string where "UPPERCASE = ''ABCDEFGHIJKLMNOPQRSTUVWXYZ''"
definition LOWERCASE :: string where "LOWERCASE = ''abcdefghijklmnopqrstuvwxyz''"
definition NUMBERS :: string where "NUMBERS = ''0123456789''"
definition SYMBOLS :: string where "SYMBOLS = ''!@#$%^&*()_+-=[]{}|;:,.<>?''"

datatype charType = uppercase | lowercase | numbers | symbols

record CharacterSet =
  chars :: string
  ctype :: charType

record PasswordOptions =
  includeUppercase :: bool
  includeLowercase :: bool
  includeNumbers :: bool
  includeSymbols :: bool

record TargetDistribution =
  uppercaseCount :: nat
  lowercaseCount :: nat
  numbersCount :: nat
  symbolsCount :: nat

fun typeName :: "charType \<Rightarrow> string" where
  "typeName uppercase = ''uppercase''"
| "typeName lowercase = ''lowercase''"
| "typeName numbers = ''numbers''"
| "typeName symbols = ''symbols''"

text \<open>\<^verbatim>\<open>set.type.charCodeAt(0)\<close>.\<close>

definition charCodeAt0 :: "charType \<Rightarrow> nat" where
  "charCodeAt0 t = of_char (hd (typeName t))"

fun getCount :: "TargetDistribution \<Rightarrow> charType \<Rightarrow> nat" where
  "getCount td uppercase = uppercaseCount td"
| "getCount td lowercase = lowercaseCount td"
| "getCount td numbers = numbersCount td"
| "getCount td symbols = symbolsCount td"

fun setCount :: "TargetDistribution \<Rightarrow> charType \<Rightarrow> nat \<Rightarrow> TargetDistribution" where
  "setCount td uppercase n = td\<lparr>uppercaseCount := n\<rparr>"
| "setCount td lowercase n = td\<lparr>lowercaseCount := n\<rparr>"
| "setCount td numbers n = td\<lparr>numbersCount := n\<rparr>"
| "setCount td symbols n = td\<lparr>symbolsCount := n\<rparr>"

definition activeSetsOf :: "PasswordOptions \<Rightarrow> CharacterSet list" where
  "activeSetsOf options =
     (let activeSets =
            (if includeUppercase options then [\<lparr>chars = UPPERCASE, ctype = uppercase\<rparr>] else [])
          @ (if includeLowercase options then [\<lparr>chars = LOWERCASE, ctype = lowercase\<rparr>] else [])
          @ (if includeNumbers options then [\<lparr>chars = NUMBERS, ctype = numbers\<rparr>] else [])
          @ (if includeSymbols options then [\<lparr>chars = SYMBOLS, ctype = symbols\<rparr>] else [])
      in if length activeSets = 0
         then [\<lparr>chars = UPPERCASE, ctype = uppercase\<rparr>, \<lparr>chars = LOWERCASE, ctype = lowercase\<rparr>,
               \<lparr>chars = NUMBERS, ctype = numbers\<rparr>, \<lparr>chars = SYMBOLS, ctype = symbols\<rparr>]
         else activeSets)"

subsection \<open>Repetition budget and target distribution\<close>

definition calculateMaxRepetitions :: "nat \<Rightarrow> nat" where
  "calculateMaxRepetitions len =
     (if len \<le> 8 then 2
      else if len \<le> 16 then max 2 (nat (mathFloor (roundRatio (int len) 6)))
      else if len \<le> 32 then max 2 (nat (mathFloor (roundRatio (int len) 8)))
      else max 3 (nat (mathFloor (roundRatio (int len) 10))))"

text \<open>\<^verbatim>\<open>PASSWORD_DISTRIBUTION_CONFIG\<close>: the thresholds and the weights of the two profiles, in the
  order uppercase, lowercase, numbers, symbols.\<close>

definition longThreshold :: nat where "longThreshold = 64"
definition mediumThreshold :: nat where "mediumThreshold = 32"

definition longDistribution :: "double \<times> double \<times> double \<times> double" where
  "longDistribution = (roundRatio 20 100, roundRatio 35 100, roundRatio 20 100, roundRatio 25 100)"

definition mediumDistribution :: "double \<times> double \<times> double \<times> double" where
  "mediumDistribution = (roundRatio 25 100, roundRatio 35 100, roundRatio 20 100, roundRatio 20 100)"

definition weighted :: "nat \<Rightarrow> double \<times> double \<times> double \<times> double \<Rightarrow> TargetDistribution" where
  "weighted len config =
     (case config of (u, l, n, s) \<Rightarrow>
        \<lparr> uppercaseCount = nat (mathFloor (fmul (int len) u)),
          lowercaseCount = nat (mathFloor (fmul (int len) l)),
          numbersCount = nat (mathFloor (fmul (int len) n)),
          symbolsCount = nat (mathFloor (fmul (int len) s)) \<rparr>)"

text \<open>\<^verbatim>\<open>Object.keys(targetDistribution).reduce((a, b) => t[a] > t[b] ? a : b)\<close>: the keys in
  insertion order, the first one as the start value.\<close>

definition largestType :: "TargetDistribution \<Rightarrow> charType" where
  "largestType td =
     foldl (\<lambda>a b. if getCount td a > getCount td b then a else b) uppercase [lowercase, numbers, symbols]"

definition calculateTargetDistribution :: "CharacterSet list \<Rightarrow> nat \<Rightarrow> TargetDistribution" where
  "calculateTargetDistribution activeSets len =
     (let zero = \<lparr>uppercaseCount = 0, lowercaseCount = 0, numbersCount = 0, symbolsCount = 0\<rparr>;
          targetDistribution =
            (if length activeSets = 4 then
               (if len \<ge> longThreshold then weighted len longDistribution
                else if len \<ge> mediumThreshold then weighted len mediumDistribution
                else (let equalShare = nat (mathFloor (roundRatio (int len) 4))
                      in \<lparr>uppercaseCount = equalShare, lowercaseCount = equalShare,
                          numbersCount = equalShare, symbolsCount = equalShare\<rparr>))
             else (let equalShare = nat (mathFloor (roundRatio (int len) (int (length activeSets))))
                   in foldl (\<lambda>td cset. setCount td (ctype cset) equalShare) zero activeSets));
          totalAllocated = uppercaseCount targetDistribution + lowercaseCount targetDistribution
                           + numbersCount targetDistribution + symbolsCount targetDistribution;
          remainder = int len - int totalAllocated
      in if remainder > 0
         then (let t = largestType targetDistribution
               in setCount targetDistribution t (getCount targetDistribution t + nat remainder))
         else targetDistribution)"

subsection \<open>The deterministic generator\<close>

definition isHexDigit :: "char \<Rightarrow> bool" where
  "isHexDigit c = (c \<in> set ''0123456789abcdefABCDEF'')"

definition hexDigitValue :: "char \<Rightarrow> int" where
  "hexDigitValue c =
     (let n = (of_char c :: int)
      in if n \<le> 0x39 then n - 0x30 else if n \<le> 0x46 then n - 0x37 else n - 0x57)"

text \<open>
  \<^verbatim>\<open>parseInt(s, 16)\<close>: leading white space is skipped, then a sign, then a prefix \<^verbatim>\<open>0x\<close> or
  \<^verbatim>\<open>0X\<close>; the longest run of hexadecimal digits that follows is the number, and \<open>None\<close>
  (\<^verbatim>\<open>NaN\<close>) is returned when that run is empty.
\<close>

definition parseInt16 :: "string \<Rightarrow> int option" where
  "parseInt16 input =
     (let s1 = dropWhile isWhiteSpace input;
          negative = (s1 \<noteq> [] \<and> hd s1 = CHR ''-'');
          s2 = (if s1 \<noteq> [] \<and> (hd s1 = CHR ''-'' \<or> hd s1 = CHR ''+'') then tl s1 else s1);
          s3 = (if length s2 \<ge> 2 \<and> s2 ! 0 = CHR ''0'' \<and> (s2 ! 1 = CHR ''x'' \<or> s2 ! 1 = CHR ''X'')
                then drop 2 s2 else s2);
          ds = takeWhile isHexDigit s3
      in if ds = [] then None
         else Some ((if negative then - 1 else 1) * foldl (\<lambda>acc c. 16 * acc + hexDigitValue c) 0 ds))"

text \<open>
  The closure \<^verbatim>\<open>getHashValue\<close> of \<^verbatim>\<open>hashToPassword\<close>, with the captured \<^verbatim>\<open>hashOffset\<close> passed in
  and returned. Offsets and seeds are never negative, so \<^verbatim>\<open>%\<close> is \<open>mod\<close>. For the empty hash
  every index is \<^verbatim>\<open>NaN\<close>, the parse fails and the value is \<open>1\<close>; the offset (\<^verbatim>\<open>NaN\<close> from then
  on) is never read again but by this branch.
\<close>

definition getHashValue :: "string \<Rightarrow> int \<Rightarrow> int \<Rightarrow> int \<times> int" where
  "getHashValue hashString hashOffset seed =
     (let hashLength = int (length hashString)
      in if hashLength = 0 then (1, hashOffset)
         else (let index1 = (hashOffset + seed) mod hashLength;
                   index2 = (hashOffset + seed + 1) mod hashLength;
                   index3 = (hashOffset + seed + 2) mod hashLength
               in ((case parseInt16 [hashString ! nat index1, hashString ! nat index2, hashString ! nat index3] of
                      None \<Rightarrow> 1
                    | Some v \<Rightarrow> if v = 0 then 1 else v),
                   (hashOffset + 3) mod hashLength)))"

type_synonym generator = "int \<Rightarrow> int \<Rightarrow> int \<times> int"

subsection \<open>Selection with repetition control\<close>

record state =
  hashOffset :: int
  password :: "int \<Rightarrow> char option"
  usedPositions :: "int set"
  characterUsage :: "char \<Rightarrow> nat"

text \<open>\<^verbatim>\<open>Math.min(...xs)\<close>; \<open>None\<close> is the \<^verbatim>\<open>Infinity\<close> of the empty list.\<close>

fun minimum :: "nat list \<Rightarrow> nat option" where
  "minimum [] = None"
| "minimum (x # xs) = Some (fold min xs x)"

text \<open>\<^verbatim>\<open>characterUsage.set(c, (characterUsage.get(c) || 0) + 1)\<close>. A \<^verbatim>\<open>undefined\<close> character is
  stored under a key that no read of the program asks for.\<close>

definition recordUsage :: "(char \<Rightarrow> nat) \<Rightarrow> char option \<Rightarrow> (char \<Rightarrow> nat)" where
  "recordUsage usage selectedChar =
     (case selectedChar of None \<Rightarrow> usage | Some c \<Rightarrow> usage(c := usage c + 1))"

definition selectCharacterWithRepetitionControl ::
  "generator \<Rightarrow> string \<Rightarrow> (char \<Rightarrow> nat) \<Rightarrow> nat \<Rightarrow> int \<Rightarrow> int \<Rightarrow> char option \<times> int" where
  "selectCharacterWithRepetitionControl g availableChars usage maxRepetitions offset seed =
     (let availableUnderLimit = filter (\<lambda>c. usage c < maxRepetitions) availableChars
      in if length availableUnderLimit > 0 then
           (let r = g offset seed;
                charIndex = jsRem (fst r) (int (length availableUnderLimit))
            in (arrayGet availableUnderLimit charIndex, snd r))
         else
           (let leastUsedCount = minimum (map usage availableChars);
                leastUsedChars = filter (\<lambda>c. Some (usage c) = leastUsedCount) availableChars;
                r = g offset (seed + 1000);
                charIndex = jsRem (fst r) (int (length leastUsedChars))
            in (arrayGet leastUsedChars charIndex, snd r)))"

subsection \<open>Placement pass\<close>

text \<open>The \<^verbatim>\<open>do ... while\<close> loop that probes for a position, entered with \<open>attempts\<close> draws
  made; it returns the last position drawn, the number of attempts and the new offset.\<close>

function probePosition :: "generator \<Rightarrow> int set \<Rightarrow> nat \<Rightarrow> int \<Rightarrow> nat \<Rightarrow> int \<Rightarrow> int \<times> nat \<times> int" where
  "probePosition g used len seedBase attempts offset =
     (let r = g offset (seedBase + int attempts);
          position = jsRem (fst r) (int len)
      in if position \<in> used \<and> attempts + 1 < len * 2
         then probePosition g used len seedBase (attempts + 1) (snd r)
         else (position, attempts + 1, snd r))"
  by pat_completeness auto
termination
  by (relation "measure (\<lambda>(g, used, len, seedBase, attempts, offset). len * 2 - attempts)") auto

declare probePosition.simps [simp del]

text \<open>One turn of the inner loop of \<^verbatim>\<open>fillPasswordWithDistribution\<close>, for slot \<open>i\<close> of \<open>cset\<close>.\<close>

definition placeCharacter :: "generator \<Rightarrow> CharacterSet \<Rightarrow> nat \<Rightarrow> nat \<Rightarrow> nat \<Rightarrow> state \<Rightarrow> state" where
  "placeCharacter g cset len maxRepetitions i st =
     (let availableChars = chars cset;
          code = int (charCodeAt0 (ctype cset));
          probed = probePosition g (usedPositions st) len (code * 1000 + int i * 100) 0 (hashOffset st);
          attempts = fst (snd probed);
          position =
            (if attempts \<ge> len * 2
             then (case find (\<lambda>j. int j \<notin> usedPositions st) [0..<len] of
                     Some j \<Rightarrow> int j
                   | None \<Rightarrow> fst probed)
             else fst probed)
      in if position \<notin> usedPositions st then
           (let selected = selectCharacterWithRepetitionControl g availableChars (characterUsage st)
                             maxRepetitions (snd (snd probed)) (code * 2000 + int i * 300)
            in st\<lparr>hashOffset := snd selected,
                  password := (password st)(position := fst selected),
                  usedPositions := insert position (usedPositions st),
                  characterUsage := recordUsage (characterUsage st) (fst selected)\<rparr>)
         else st\<lparr>hashOffset := snd (snd probed)\<rparr>)"

text \<open>The inner loop \<^verbatim>\<open>for (let i = 0; i < targetCount; i++)\<close>, entered at \<open>i\<close>.\<close>

function placeCharacters ::
  "generator \<Rightarrow> CharacterSet \<Rightarrow> nat \<Rightarrow> nat \<Rightarrow> nat \<Rightarrow> nat \<Rightarrow> state \<Rightarrow> state" where
  "placeCharacters g cset len maxRepetitions targetCount i st =
     (if i < targetCount
      then placeCharacters g cset len maxRepetitions targetCount (Suc i)
             (placeCharacter g cset len maxRepetitions i st)
      else st)"
  by pat_completeness auto
termination
  by (relation "measure (\<lambda>(g, cset, len, m, targetCount, i, st). targetCount - i)") auto

declare placeCharacters.simps [simp del]

text \<open>The outer loop \<^verbatim>\<open>for (const set of activeSets)\<close>. The set of used positions that the
  source returns is a field of the state.\<close>

fun fillPasswordWithDistribution ::
  "generator \<Rightarrow> CharacterSet list \<Rightarrow> TargetDistribution \<Rightarrow> nat \<Rightarrow> nat \<Rightarrow> state \<Rightarrow> state" where
  "fillPasswordWithDistribution g [] targetDistribution len maxRepetitions st = st"
| "fillPasswordWithDistribution g (cset # activeSets) targetDistribution len maxRepetitions st =
     fillPasswordWithDistribution g activeSets targetDistribution len maxRepetitions
       (placeCharacters g cset len maxRepetitions (getCount targetDistribution (ctype cset)) 0 st)"

subsection \<open>Fill pass\<close>

definition setWeight :: "nat \<Rightarrow> CharacterSet \<Rightarrow> int" where
  "setWeight len cset =
     (if ctype cset = symbols \<and> len \<ge> 32 then 3
      else if ctype cset = numbers \<and> len \<ge> 32 then 2
      else 1)"

text \<open>The loop that walks the weights: \<open>selectedSet\<close> keeps its start value when no turn
  brings \<open>selectedWeight\<close> to zero or below.\<close>

fun selectSet :: "int \<Rightarrow> (CharacterSet \<times> int) list \<Rightarrow> CharacterSet \<Rightarrow> CharacterSet" where
  "selectSet selectedWeight [] selectedSet = selectedSet"
| "selectSet selectedWeight ((cset, weight) # rest) selectedSet =
     (if selectedWeight - weight \<le> 0 then cset
      else selectSet (selectedWeight - weight) rest selectedSet)"

text \<open>One turn of the loop of \<^verbatim>\<open>fillRemainingPositions\<close>. \<^verbatim>\<open>hashToPassword\<close> never passes an
  empty \<open>activeSets\<close>.\<close>

definition fillPosition :: "generator \<Rightarrow> CharacterSet list \<Rightarrow> nat \<Rightarrow> nat \<Rightarrow> nat \<Rightarrow> state \<Rightarrow> state" where
  "fillPosition g activeSets len maxRepetitions i st =
     (if int i \<notin> usedPositions st then
        (case activeSets of
           [] \<Rightarrow> st
         | first # others \<Rightarrow>
            (let setWeights = map (setWeight len) activeSets;
                 totalWeight = sum_list setWeights;
                 r = g (hashOffset st) (int i * 500);
                 selectedWeight = jsRem (fst r) totalWeight;
                 selectedSet = selectSet selectedWeight (zip activeSets setWeights) first;
                 availableChars = chars selectedSet;
                 selected = selectCharacterWithRepetitionControl g availableChars (characterUsage st)
                              maxRepetitions (snd r) (int i * 600)
             in st\<lparr>hashOffset := snd selected,
                   password := (password st)(int i := fst selected),
                   characterUsage := recordUsage (characterUsage st) (fst selected)\<rparr>))
      else st)"

text \<open>The loop \<^verbatim>\<open>for (let i = 0; i < length; i++)\<close>, entered at \<open>i\<close>.\<close>

function fillFrom :: "generator \<Rightarrow> CharacterSet list \<Rightarrow> nat \<Rightarrow> nat \<Rightarrow> nat \<Rightarrow> state \<Rightarrow> state" where
  "fillFrom g activeSets len maxRepetitions i st =
     (if i < len
      then fillFrom g activeSets len maxRepetitions (Suc i) (fillPosition g activeSets len maxRepetitions i st)
      else st)"
  by pat_completeness auto
termination
  by (relation "measure (\<lambda>(g, activeSets, len, m, i, st). len - i)") auto

declare fillFrom.simps [simp del]

definition fillRemainingPositions :: "generator \<Rightarrow> CharacterSet list \<Rightarrow> nat \<Rightarrow> nat \<Rightarrow> state \<Rightarrow> state" where
  "fillRemainingPositions g activeSets len maxRepetitions st = fillFrom g activeSets len maxRepetitions 0 st"

subsection \<open>Shuffle\<close>

definition swapStep :: "generator \<Rightarrow> nat \<Rightarrow> state \<Rightarrow> state" where
  "swapStep g i st =
     (let r = g (hashOffset st) (int i * 400);
          j = jsRem (fst r) (int i + 1);
          temp = password st (int i);
          password1 = (password st)(int i := password st j)
      in st\<lparr>hashOffset := snd r, password := password1(j := temp)\<rparr>)"

text \<open>The loop \<^verbatim>\<open>for (let i = length - 1; i > 0; i--)\<close>, entered at \<open>i\<close>.\<close>

fun shuffleFrom :: "generator \<Rightarrow> nat \<Rightarrow> state \<Rightarrow> state" where
  "shuffleFrom g 0 st = st"
| "shuffleFrom g (Suc i) st = shuffleFrom g i (swapStep g (Suc i) st)"

definition shufflePassword :: "generator \<Rightarrow> nat \<Rightarrow> state \<Rightarrow> state" where
  "shufflePassword g len st = shuffleFrom g (len - 1) st"

subsection \<open>From the hash to the password\<close>

text \<open>\<^verbatim>\<open>password.join('')\<close>: holes and \<^verbatim>\<open>undefined\<close> entries give the empty string.\<close>

definition joinPassword :: "(int \<Rightarrow> char option) \<Rightarrow> nat \<Rightarrow> string" where
  "joinPassword pw len = concat (map (\<lambda>i. case pw (int i) of None \<Rightarrow> [] | Some c \<Rightarrow> [c]) [0..<len])"

definition initialState :: state where
  "initialState = \<lparr>hashOffset = 0, password = (\<lambda>i. None), usedPositions = {}, characterUsage = (\<lambda>c. 0)\<rparr>"

text \<open>The state after the placement pass, after the fill pass and after the shuffle, for
  a generator \<open>g\<close>; \<^verbatim>\<open>hashToPassword\<close> runs them with its closure \<^verbatim>\<open>getHashValue\<close>.\<close>

definition placed :: "generator \<Rightarrow> nat \<Rightarrow> PasswordOptions \<Rightarrow> state" where
  "placed g len options =
     (let activeSets = activeSetsOf options
      in fillPasswordWithDistribution g activeSets
           (calculateTargetDistribution activeSets len) len (calculateMaxRepetitions len) initialState)"

definition filled :: "generator \<Rightarrow> nat \<Rightarrow> PasswordOptions \<Rightarrow> state" where
  "filled g len options =
     fillRemainingPositions g (activeSetsOf options) len (calculateMaxRepetitions len)
       (placed g len options)"

definition shuffled :: "generator \<Rightarrow> nat \<Rightarrow> PasswordOptions \<Rightarrow> state" where
  "shuffled g len options = shufflePassword g len (filled g len options)"

definition hashToPassword :: "string \<Rightarrow> nat \<Rightarrow> PasswordOptions \<Rightarrow> string" where
  "hashToPassword hashString len options =
     joinPassword (password (shuffled (getHashValue hashString) len options)) len"

subsection \<open>Diversity metrics\<close>

record CharacterDiversity =
  totalUniqueCharacters :: nat
  maxRepetitions :: nat
  averageRepetitions :: double
  diversityRatio :: double

text \<open>\<^verbatim>\<open>charCount.set(char, (charCount.get(char) || 0) + 1)\<close> on a map that keeps the order of
  insertion.\<close>

fun increment :: "char \<Rightarrow> (char \<times> nat) list \<Rightarrow> (char \<times> nat) list" where
  "increment c [] = [(c, 1)]"
| "increment c ((k, n) # m) = (if k = c then (k, n + 1) # m else (k, n) # increment c m)"

text \<open>The empty password gives \<^verbatim>\<open>-Infinity\<close> and \<^verbatim>\<open>NaN\<close> fields: \<open>None\<close>.\<close>

definition calculateCharacterDiversity :: "string \<Rightarrow> CharacterDiversity option" where
  "calculateCharacterDiversity pw =
     (if pw = [] then None
      else (let charCount = foldl (\<lambda>m c. increment c m) [] pw;
                repetitionCounts = map snd charCount;
                unique = length charCount;
                average = roundRatio (int (sum_list repetitionCounts)) (int (length repetitionCounts));
                ratio = roundRatio (int unique) (int (length pw))
            in Some \<lparr> totalUniqueCharacters = unique,
                      maxRepetitions = fold max repetitionCounts 0,
                      averageRepetitions = roundRatio (mathRound (fmul 100 average)) 100,
                      diversityRatio = roundRatio (mathRound (fmul 1000 ratio)) 1000 \<rparr>))"

section \<open>Definitions that follow the specification\<close>

text \<open>
  The definitions of this section are written from the words of the specification, to
  be compared with the functions above, which are written from the source.
\<close>

subsection \<open>Digest derivation\<close>

text \<open>The message of iteration \<open>i\<close>: the salt when it is present and not empty, the marker
  \<open>iter-i\<close>, the normalized input and the current digest material, joined by the
  delimiter.\<close>

definition message :: "string option \<Rightarrow> nat \<Rightarrow> string \<Rightarrow> string \<Rightarrow> string" where
  "message salt i input currentDigestMaterial =
     join ''|'' ((case salt of None \<Rightarrow> [] | Some s \<Rightarrow> (if s \<noteq> [] then [s] else []))
                 @ [''iter-'' @ decimal i, input, currentDigestMaterial])"

definition hexEncode :: "8 word list \<Rightarrow> string" where
  "hexEncode bytes = concat (map hexByte bytes)"

text \<open>The digest after \<open>N\<close> iterations, starting from the normalized input.\<close>

definition derive :: "(8 word list \<Rightarrow> 8 word list) \<Rightarrow> string option \<Rightarrow> nat \<Rightarrow> string \<Rightarrow> string" where
  "derive H salt N input =
     foldl (\<lambda>currentDigestMaterial i. hexEncode (H (encode (message salt i input currentDigestMaterial))))
       input [0..<N]"

text \<open>A digest: a non-empty string of lowercase hexadecimal digits.\<close>

definition isDigest :: "string \<Rightarrow> bool" where
  "isDigest d = (d \<noteq> [] \<and> list_all (\<lambda>c. c \<in> set ''0123456789abcdef'') d)"

subsection \<open>The generator\<close>

text \<open>The value of a lowercase hexadecimal digit: its place among the sixteen digits.\<close>

definition hexValue :: "char \<Rightarrow> int" where
  "hexValue c = int (length (takeWhile (\<lambda>d. d \<noteq> c) ''0123456789abcdef''))"

text \<open>\<open>next(seed)\<close>: the three digits at \<open>offset + seed\<close>, \<open>offset + seed + 1\<close> and
  \<open>offset + seed + 2\<close> (modulo the length of the digest) are read as one number, which is
  replaced by \<open>1\<close> when it is \<open>0\<close>; the offset moves on by \<open>3\<close>.\<close>

definition nextDraw :: "string \<Rightarrow> int \<Rightarrow> int \<Rightarrow> int \<times> int" where
  "nextDraw d offset seed =
     (let L = int (length d);
          v = 256 * hexValue (d ! nat ((offset + seed) mod L))
              + 16 * hexValue (d ! nat ((offset + seed + 1) mod L))
              + hexValue (d ! nat ((offset + seed + 2) mod L))
      in (if v = 0 then 1 else v, (offset + 3) mod L))"

subsection \<open>Repetition budget\<close>

definition RepetitionBudget :: "nat \<Rightarrow> nat" where
  "RepetitionBudget len =
     (if len \<le> 8 then 2
      else if len \<le> 16 then max 2 (len div 6)
      else if len \<le> 32 then max 2 (len div 8)
      else max 3 (len div 10))"

text \<open>The budgets of the source (computed in doubles) and of the specification agree up to
  \<open>n\<close>.\<close>

fun budgetsAgree :: "nat \<Rightarrow> bool" where
  "budgetsAgree 0 = (calculateMaxRepetitions 0 = RepetitionBudget 0)"
| "budgetsAgree (Suc n) = (calculateMaxRepetitions (Suc n) = RepetitionBudget (Suc n) \<and> budgetsAgree n)"

subsection \<open>Target distribution\<close>

text \<open>The counts before the remainder is assigned: \<open>floor (length * weight)\<close> under the
  profile that the length selects when all four classes are active, and an equal share
  of the active classes otherwise.\<close>

definition baseCounts :: "PasswordOptions \<Rightarrow> nat \<Rightarrow> TargetDistribution" where
  "baseCounts options len =
     (let active = map ctype (activeSetsOf options)
      in if length active = 4 then
           (if len \<ge> 64 then
              \<lparr>uppercaseCount = len * 20 div 100, lowercaseCount = len * 35 div 100,
               numbersCount = len * 20 div 100, symbolsCount = len * 25 div 100\<rparr>
            else if len \<ge> 32 then
              \<lparr>uppercaseCount = len * 25 div 100, lowercaseCount = len * 35 div 100,
               numbersCount = len * 20 div 100, symbolsCount = len * 20 div 100\<rparr>
            else
              \<lparr>uppercaseCount = len div 4, lowercaseCount = len div 4,
               numbersCount = len div 4, symbolsCount = len div 4\<rparr>)
         else
           \<lparr>uppercaseCount = (if uppercase \<in> set active then len div length active else 0),
            lowercaseCount = (if lowercase \<in> set active then len div length active else 0),
            numbersCount = (if numbers \<in> set active then len div length active else 0),
            symbolsCount = (if symbols \<in> set active then len div length active else 0)\<rparr>)"

definition total :: "TargetDistribution \<Rightarrow> nat" where
  "total td = uppercaseCount td + lowercaseCount td + numbersCount td + symbolsCount td"

definition largestCount :: "TargetDistribution \<Rightarrow> nat" where
  "largestCount td =
     max (max (uppercaseCount td) (lowercaseCount td)) (max (numbersCount td) (symbolsCount td))"

text \<open>The class with the largest count: the first one in the order uppercase, lowercase,
  numbers, symbols, and the last one.\<close>

definition firstLargest :: "TargetDistribution \<Rightarrow> charType" where
  "firstLargest td =
     (if uppercaseCount td = largestCount td then uppercase
      else if lowercaseCount td = largestCount td then lowercase
      else if numbersCount td = largestCount td then numbers
      else symbols)"

definition lastLargest :: "TargetDistribution \<Rightarrow> charType" where
  "lastLargest td =
     (if symbolsCount td = largestCount td then symbols
      else if numbersCount td = largestCount td then numbers
      else if lowercaseCount td = largestCount td then lowercase
      else uppercase)"

text \<open>The target distribution with the remainder given to the class \<open>pick\<close> chooses.\<close>

definition distributionBy ::
  "(TargetDistribution \<Rightarrow> charType) \<Rightarrow> PasswordOptions \<Rightarrow> nat \<Rightarrow> TargetDistribution" where
  "distributionBy pick options len =
     (let td = baseCounts options len
      in if total td < len then setCount td (pick td) (getCount td (pick td) + (len - total td))
         else td)"

text \<open>Up to \<open>n\<close>, the floors that the source computes in doubles are the exact ones: of
  the quotients by \<open>1\<close>, \<open>2\<close>, \<open>3\<close> and \<open>4\<close>, and of the products with the weights
  \<open>0.20\<close>, \<open>0.25\<close> and \<open>0.35\<close>.\<close>

fun quotientsExact :: "nat \<Rightarrow> bool" where
  "quotientsExact 0 = True"
| "quotientsExact (Suc n) =
     (mathFloor (roundRatio (int (Suc n)) 1) = int (Suc n div 1)
      \<and> mathFloor (roundRatio (int (Suc n)) 2) = int (Suc n div 2)
      \<and> mathFloor (roundRatio (int (Suc n)) 3) = int (Suc n div 3)
      \<and> mathFloor (roundRatio (int (Suc n)) 4) = int (Suc n div 4)
      \<and> quotientsExact n)"

fun productsExact :: "nat \<Rightarrow> bool" where
  "productsExact 0 = True"
| "productsExact (Suc n) =
     (mathFloor (fmul (int (Suc n)) (roundRatio 20 100)) = int (Suc n * 20 div 100)
      \<and> mathFloor (fmul (int (Suc n)) (roundRatio 25 100)) = int (Suc n * 25 div 100)
      \<and> mathFloor (fmul (int (Suc n)) (roundRatio 35 100)) = int (Suc n * 35 div 100)
      \<and> productsExact n)"

section \<open>The digest deriver\<close>

lemma saltComponents_eq:
  "saltComponents salt = (case salt of None \<Rightarrow> [] | Some s \<Rightarrow> (if s \<noteq> [] then [s] else []))"
  by (simp add: saltComponents_def split: option.splits)

lemma hashLoop_foldl:
  "hashLoop env salt inp n i cur =
     foldl (\<lambda>c k. hexEncode (digest env (encode (message salt k inp c)))) cur [i..<nat n]"
proof (induction "nat n - i" arbitrary: i cur)
  case 0
  then have "\<not> int i < n" by linarith
  moreover have "[i..<nat n] = []" using 0 by simp
  ultimately show ?case by (subst hashLoop.simps) simp
next
  case (Suc d)
  then have lt: "i < nat n" and d: "d = nat n - Suc i" by linarith+
  have step: "[i..<nat n] = i # [Suc i..<nat n]" using lt by (simp add: upt_conv_Cons)
  have "int i < n" using lt by linarith
  then show ?case
    using Suc.hyps(1)[OF d]
    by (subst hashLoop.simps) (simp add: step message_def saltComponents_eq hexEncode_def Let_def)
qed

lemma effective_salt: "(case s of Some x \<Rightarrow> Some x | None \<Rightarrow> configMasterSalt) = s"
  by (cases s) (simp_all add: configMasterSalt_def)

lemma generateHash_Inr:
  assumes "keywords' options \<noteq> []"
  shows "generateHash env options =
           Inr \<lparr> hash = derive (digest env) (masterSalt options)
                          (nat (case iterations options of None \<Rightarrow> hashIterations | Some k \<Rightarrow> k))
                          (join ''|'' (map normalizeInput
                             (filter (\<lambda>k. 0 < length (trim k)) (keywords' options)))),
                  iterationsUsed = (case iterations options of None \<Rightarrow> hashIterations | Some k \<Rightarrow> k),
                  timestamp = now env \<rparr>"
  using assms
  by (simp add: generateHash_def validateInputs_def Let_def hashLoop_foldl derive_def effective_salt)

text \<open>
  C2. For every non-empty keyword array, salt and iteration count, \<open>generateHash\<close> returns
  the digest that the specification describes: the current digest material starts as the
  normalized keywords joined with \<open>|\<close>; iteration \<open>i\<close>, for \<open>i\<close> from \<open>0\<close> to \<open>N - 1\<close>, joins the
  salt (when present and not empty), \<open>iter-i\<close>, the normalized input and the current
  material with \<open>|\<close>, hashes the bytes with the digest primitive and hex-encodes the
  result in lowercase; the material after the last iteration is the hash returned.
\<close>

theorem generateHash_algorithm:
  assumes "keywords' options \<noteq> []" and "iterations options = Some (int N)"
  shows "generateHash env options =
           Inr \<lparr> hash = derive (digest env) (masterSalt options) N
                          (join ''|'' (map normalizeInput
                             (filter (\<lambda>k. 0 < length (trim k)) (keywords' options)))),
                  iterationsUsed = int N,
                  timestamp = now env \<rparr>"
  using generateHash_Inr[OF assms(1), of env] assms(2) by simp

theorem generateHash_algorithm_witness:
  "generateHash \<lparr>digest = (\<lambda>bytes. [of_nat (length bytes), 0x0F]), timerDelay = 1, now = 7\<rparr>
     \<lparr>keywords' = [''Ab '', ''c''], masterSalt = Some ''s'', iterations = Some 2\<rparr>
   = Inr \<lparr>hash = ''120f'', iterationsUsed = 2, timestamp = 7\<rparr>"
proof -
  have input: "join ''|'' (map normalizeInput (filter (\<lambda>k. 0 < length (trim k)) [''Ab '', ''c''])) = ''ab|c''"
    by code_simp
  have first: "hexEncode [of_nat (length (encode (message (Some ''s'') 0 ''ab|c'' ''ab|c''))), 0x0F] = ''120f''"
    by code_simp
  have second: "hexEncode [of_nat (length (encode (message (Some ''s'') (Suc 0) ''ab|c'' ''120f''))), 0x0F] = ''120f''"
    by code_simp
  have range: "[0..<2] = [0, Suc 0]"
    by code_simp
  have "derive (\<lambda>bytes. [of_nat (length bytes), 0x0F]) (Some ''s'') 2 ''ab|c'' = ''120f''"
    unfolding derive_def range using first second by simp
  then show ?thesis
    using generateHash_algorithm[of "\<lparr>keywords' = [''Ab '', ''c''], masterSalt = Some ''s'', iterations = Some 2\<rparr>" 2
            "\<lparr>digest = (\<lambda>bytes. [of_nat (length bytes), 0x0F]), timerDelay = 1, now = 7\<rparr>"] input
    by simp
qed

text \<open>
  C10. With \<open>iterations = 0\<close> and a non-empty keyword array the loop never runs: the hash
  returned is the normalized keywords joined with \<open>|\<close>, the keyword material itself.
\<close>

theorem generateHash_zero_iterations:
  assumes "keywords' options \<noteq> []" and "iterations options = Some 0"
  shows "\<exists>r. generateHash env options = Inr r
             \<and> hash r = join ''|'' (map normalizeInput
                                     (filter (\<lambda>k. 0 < length (trim k)) (keywords' options)))
             \<and> iterationsUsed r = 0"
  using generateHash_Inr[OF assms(1), of env] assms(2) by (simp add: derive_def)

text \<open>The witness: the keywords \<open>Test\<close> and \<open>Site\<close> give the hash \<open>test|site\<close>, which is no
  digest.\<close>

theorem generateHash_zero_iterations_witness:
  "\<exists>r. generateHash \<lparr>digest = (\<lambda>bytes. []), timerDelay = 1, now = 0\<rparr>
          \<lparr>keywords' = [''Test'', '' Site ''], masterSalt = None, iterations = Some 0\<rparr> = Inr r
       \<and> hash r = ''test|site'' \<and> iterationsUsed r = 0 \<and> \<not> isDigest (hash r)"
proof -
  have n: "join ''|'' (map normalizeInput (filter (\<lambda>k. 0 < length (trim k)) [''Test'', '' Site ''])) = ''test|site''"
    by code_simp
  have d: "\<not> isDigest ''test|site''"
    by (simp add: isDigest_def)
  show ?thesis
    using generateHash_zero_iterations[of "\<lparr>keywords' = [''Test'', '' Site ''], masterSalt = None, iterations = Some 0\<rparr>"
            "\<lparr>digest = (\<lambda>bytes. []), timerDelay = 1, now = 0\<rparr>"] n d
    by auto
qed

text \<open>
  C3. The specification has the deriver fail when no keyword is left after the filter
  or when the normalized, joined keywords are shorter than three characters. The source
  checks neither: \<open>validateInputs\<close> rejects only the empty array. The keywords \<open>["ab"]\<close>,
  and an array whose only keyword is blank, are hashed.
\<close>

theorem generateHash_accepts_short_input:
  "(\<exists>r. generateHash env \<lparr>keywords' = [''ab''], masterSalt = None, iterations = None\<rparr> = Inr r)
   \<and> (\<exists>r. generateHash env \<lparr>keywords' = [''  ''], masterSalt = None, iterations = None\<rparr> = Inr r)
   \<and> validateInputs [''  ''] = Inr []"
  by (simp add: generateHash_def validateInputs_def Let_def trim_def isWhiteSpace_def)

text \<open>
  C4. The specification has the normalization strip diacritics. The source trims and
  lowercases only: \<open>Caf\<eacute>\<close> (with \<open>U+00E9\<close>) is normalized to \<open>caf\<eacute>\<close>, not to \<open>cafe\<close>.
\<close>

theorem normalizeInput_keeps_diacritics:
  "normalizeInput (''  Caf'' @ [CHR 0xE9] @ '' '') = ''caf'' @ [CHR 0xE9]
   \<and> normalizeInput (''  Caf'' @ [CHR 0xE9] @ '' '') \<noteq> ''cafe''"
  by code_simp

section \<open>The deterministic generator\<close>

lemma lowerHex_not_space: "c \<in> set ''0123456789abcdef'' \<Longrightarrow> \<not> isWhiteSpace c"
  by (auto simp: isWhiteSpace_def)

lemma lowerHex_not_sign:
  "c \<in> set ''0123456789abcdef'' \<Longrightarrow> c \<noteq> CHR ''-'' \<and> c \<noteq> CHR ''+'' \<and> c \<noteq> CHR ''x'' \<and> c \<noteq> CHR ''X''"
  by auto

lemma lowerHex_isHexDigit: "c \<in> set ''0123456789abcdef'' \<Longrightarrow> isHexDigit c"
  by (auto simp: isHexDigit_def)

lemma lowerHex_value: "c \<in> set ''0123456789abcdef'' \<Longrightarrow> hexDigitValue c = hexValue c"
  apply simp
  apply (elim disjE)
  apply (simp_all add: hexDigitValue_def hexValue_def)
  done

lemma hexValue_bounds: "0 \<le> hexValue c \<and> hexValue c \<le> 16"
proof -
  have "length (takeWhile (\<lambda>d. d \<noteq> c) ''0123456789abcdef'') \<le> length ''0123456789abcdef''"
    by (rule length_takeWhile_le)
  then show ?thesis by (simp add: hexValue_def)
qed

lemma parseInt16_digits:
  assumes a: "a \<in> set ''0123456789abcdef''" and b: "b \<in> set ''0123456789abcdef''"
    and c: "c \<in> set ''0123456789abcdef''"
  shows "parseInt16 [a, b, c] = Some (256 * hexValue a + 16 * hexValue b + hexValue c)"
proof -
  have s1: "dropWhile isWhiteSpace [a, b, c] = [a, b, c]"
    using lowerHex_not_space[OF a] by simp
  have t: "takeWhile isHexDigit [a, b, c] = [a, b, c]"
    using lowerHex_isHexDigit[OF a] lowerHex_isHexDigit[OF b] lowerHex_isHexDigit[OF c] by simp
  show ?thesis
    unfolding parseInt16_def s1 Let_def
    using lowerHex_not_sign[OF a] lowerHex_not_sign[OF b] t
      lowerHex_value[OF a] lowerHex_value[OF b] lowerHex_value[OF c]
    by simp
qed

lemma isDigest_nth:
  assumes "isDigest d"
  shows "d ! nat (k mod int (length d)) \<in> set ''0123456789abcdef''"
proof -
  have L: "0 < int (length d)" using assms by (simp add: isDigest_def)
  then have "nat (k mod int (length d)) < length d" by (simp add: nat_less_iff)
  then have "d ! nat (k mod int (length d)) \<in> set d" by simp
  moreover have "\<forall>c\<in>set d. c \<in> set ''0123456789abcdef''"
    using assms unfolding isDigest_def list_all_iff by blast
  ultimately show ?thesis by blast
qed

lemma getHashValue_nextDraw:
  assumes "isDigest d"
  shows "getHashValue d offset seed = nextDraw d offset seed"
proof -
  have L: "int (length d) \<noteq> 0" using assms by (simp add: isDigest_def)
  note h = isDigest_nth[OF assms]
  show ?thesis
    unfolding getHashValue_def nextDraw_def Let_def
    using L parseInt16_digits[OF h[of "offset + seed"] h[of "offset + seed + 1"] h[of "offset + seed + 2"]]
    by simp
qed

lemma nextDraw_positive: "1 \<le> fst (nextDraw d offset seed)"
  using hexValue_bounds[of "d ! nat ((offset + seed) mod int (length d))"]
    hexValue_bounds[of "d ! nat ((offset + seed + 1) mod int (length d))"]
    hexValue_bounds[of "d ! nat ((offset + seed + 2) mod int (length d))"]
  by (simp add: nextDraw_def Let_def)

text \<open>
  C5. On a digest, a draw \<open>getHashValue(seed)\<close> reads the three hexadecimal digits at
  \<open>(offset + seed) mod L\<close>, \<open>(offset + seed + 1) mod L\<close> and \<open>(offset + seed + 2) mod L\<close>,
  returns their value, or \<open>1\<close> when the value is \<open>0\<close>, and moves the offset to
  \<open>(offset + 3) mod L\<close> whatever the seed. The three passes of \<open>hashToPassword\<close> take
  their draws from this generator alone: running them with the generator of the
  specification gives the same password.
\<close>

theorem getHashValue_contract:
  assumes "isDigest d"
  shows "getHashValue d offset seed = nextDraw d offset seed
       \<and> 1 \<le> fst (getHashValue d offset seed)
       \<and> snd (getHashValue d offset seed) = (offset + 3) mod int (length d)
       \<and> hashToPassword d len options = joinPassword (password (shuffled (nextDraw d) len options)) len"
proof -
  have "getHashValue d = nextDraw d"
    using getHashValue_nextDraw[OF assms] by (intro ext)
  then show ?thesis
    using nextDraw_positive[of d offset seed]
    by (simp add: hashToPassword_def) (simp add: nextDraw_def Let_def)
qed

theorem getHashValue_contract_witness:
  "isDigest ''000a'' \<and> getHashValue ''000a'' 3 2 = (10, 2) \<and> getHashValue ''000a'' 0 0 = (1, 3)"
proof -
  have d: "isDigest ''000a''"
    by code_simp
  have a: "nextDraw ''000a'' 3 2 = (10, 2)"
    by code_simp
  have b: "nextDraw ''000a'' 0 0 = (1, 3)"
    by code_simp
  show ?thesis
    using d a b getHashValue_contract[OF d, of 3 2] getHashValue_contract[OF d, of 0 0] by simp
qed

end
